theory Spec2Isabelle
  imports Complex_Main "HOL-Library.Word"
begin

unbundle bit_operations_syntax

section \<open>Python strings\<close>

text \<open>
  A Python \<open>str\<close> is modelled as a \<open>string\<close> whose characters are the code points
  0 to 255 (ASCII and Latin-1); \<open>isspace\<close>, \<open>lower\<close>, \<open>strip\<close> and \<open>split\<close> follow
  CPython on that range.
\<close>

definition isspace :: "char \<Rightarrow> bool" where
  "isspace c =
     (let n = (of_char c :: nat)
      in (9 \<le> n \<and> n \<le> 13) \<or> (28 \<le> n \<and> n \<le> 32) \<or> n = 133 \<or> n = 160)"

definition lower_char :: "char \<Rightarrow> char" where
  "lower_char c =
     (let n = (of_char c :: nat)
      in if (65 \<le> n \<and> n \<le> 90) \<or> (192 \<le> n \<and> n \<le> 214) \<or> (216 \<le> n \<and> n \<le> 222)
         then char_of (n + 32) else c)"

definition lower :: "string \<Rightarrow> string" where
  "lower s = map lower_char s"

definition lstrip :: "string \<Rightarrow> string" where
  "lstrip s = dropWhile isspace s"

definition rstrip :: "string \<Rightarrow> string" where
  "rstrip s = rev (dropWhile isspace (rev s))"

definition strip :: "string \<Rightarrow> string" where
  "strip s = rstrip (lstrip s)"

text \<open>\<open>s.split(sep)\<close> for a separator of one character: never an empty list.\<close>

fun split :: "char \<Rightarrow> string \<Rightarrow> string list" where
  "split sep [] = [[]]"
| "split sep (c # cs) =
     (if c = sep then [] # split sep cs
      else (case split sep cs of
              [] \<Rightarrow> [[c]]
            | w # ws \<Rightarrow> (c # w) # ws))"

text \<open>\<open>str(n)\<close> for a non-negative integer.\<close>

definition digit_char :: "nat \<Rightarrow> char" where
  "digit_char d = char_of (48 + d)"

fun str_nat :: "nat \<Rightarrow> string" where
  "str_nat n = (if n < 10 then [digit_char n] else str_nat (n div 10) @ [digit_char (n mod 10)])"

declare str_nat.simps [simp del]

section \<open>Exceptions\<close>

datatype error = IndexError | KeyError | ZeroDivisionError | OverflowError

text \<open>\<open>xs[i]\<close>: a negative index counts from the end; out of range raises.\<close>

definition getitem :: "'a list \<Rightarrow> int \<Rightarrow> error + 'a" where
  "getitem xs i =
     (let j = (if i < 0 then i + int (length xs) else i)
      in if j < 0 \<or> int (length xs) \<le> j then Inl IndexError else Inr (xs ! nat j))"

text \<open>\<open>xs[1:-1]\<close>: a slice never raises.\<close>

definition slice_1_m1 :: "'a list \<Rightarrow> 'a list" where
  "slice_1_m1 xs = drop 1 (take (length xs - 1) xs)"

section \<open>hashlib.sha256(s.encode()).hexdigest()\<close>

text \<open>\<open>s.encode()\<close>: UTF-8, two bytes for a code point from 128 to 255.\<close>

definition encode :: "string \<Rightarrow> 8 word list" where
  "encode s =
     concat (map (\<lambda>c. let n = (of_char c :: nat)
                      in if n < 128 then [of_nat n]
                         else [of_nat (192 + n div 64), of_nat (128 + n mod 64)]) s)"

text \<open>
  The round constants (the first 32 bits of the fractional parts of the cube roots of the
  first 64 primes) and the initial hash value (the same of the square roots of the first
  8 primes), in decimal.
\<close>

definition sha256_K :: "32 word list" where
  "sha256_K =
    [1116352408, 1899447441, 3049323471, 3921009573, 961987163, 1508970993,
     2453635748, 2870763221, 3624381080, 310598401, 607225278, 1426881987,
     1925078388, 2162078206, 2614888103, 3248222580, 3835390401, 4022224774,
     264347078, 604807628, 770255983, 1249150122, 1555081692, 1996064986,
     2554220882, 2821834349, 2952996808, 3210313671, 3336571891, 3584528711,
     113926993, 338241895, 666307205, 773529912, 1294757372, 1396182291,
     1695183700, 1986661051, 2177026350, 2456956037, 2730485921, 2820302411,
     3259730800, 3345764771, 3516065817, 3600352804, 4094571909, 275423344,
     430227734, 506948616, 659060556, 883997877, 958139571, 1322822218,
     1537002063, 1747873779, 1955562222, 2024104815, 2227730452, 2361852424,
     2428436474, 2756734187, 3204031479, 3329325298]"

definition sha256_H0 :: "32 word list" where
  "sha256_H0 =
    [1779033703, 3144134277, 1013904242, 2773480762,
     1359893119, 2600822924, 528734635, 1541459225]"

definition be64 :: "nat \<Rightarrow> 8 word list" where
  "be64 n = map (\<lambda>i. ucast (drop_bit (8 * i) (of_nat n :: 64 word))) [7, 6, 5, 4, 3, 2, 1, 0]"

definition sha256_pad :: "8 word list \<Rightarrow> 8 word list" where
  "sha256_pad m =
     m @ [0x80] @ replicate ((119 - length m mod 64) mod 64) 0 @ be64 (8 * length m)"

fun chunks :: "nat \<Rightarrow> 'a list \<Rightarrow> 'a list list" where
  "chunks n xs = (if n = 0 \<or> xs = [] then [] else take n xs # chunks n (drop n xs))"

declare chunks.simps [simp del]

definition be32 :: "8 word list \<Rightarrow> 32 word" where
  "be32 bs = foldl (\<lambda>acc b. push_bit 8 acc OR ucast b) 0 bs"

definition ssig0 :: "32 word \<Rightarrow> 32 word" where
  "ssig0 x = word_rotr 7 x XOR word_rotr 18 x XOR drop_bit 3 x"

definition ssig1 :: "32 word \<Rightarrow> 32 word" where
  "ssig1 x = word_rotr 17 x XOR word_rotr 19 x XOR drop_bit 10 x"

definition bsig0 :: "32 word \<Rightarrow> 32 word" where
  "bsig0 x = word_rotr 2 x XOR word_rotr 13 x XOR word_rotr 22 x"

definition bsig1 :: "32 word \<Rightarrow> 32 word" where
  "bsig1 x = word_rotr 6 x XOR word_rotr 11 x XOR word_rotr 25 x"

fun sha256_schedule :: "nat \<Rightarrow> 32 word list \<Rightarrow> 32 word list" where
  "sha256_schedule 0 w = w"
| "sha256_schedule (Suc k) w =
     (let n = length w
      in sha256_schedule k
           (w @ [ssig1 (w ! (n - 2)) + w ! (n - 7) + ssig0 (w ! (n - 15)) + w ! (n - 16)]))"

definition sha256_round :: "32 word list \<Rightarrow> 32 word \<times> 32 word \<Rightarrow> 32 word list" where
  "sha256_round st kw =
     (case st of
        [a, b, c, d, e, f, g, h] \<Rightarrow>
          (let t1 = h + bsig1 e + ((e AND f) XOR (NOT e AND g)) + fst kw + snd kw;
               t2 = bsig0 a + ((a AND b) XOR (a AND c) XOR (b AND c))
           in [t1 + t2, a, b, c, d + t1, e, f, g])
      | _ \<Rightarrow> st)"

definition sha256_block :: "32 word list \<Rightarrow> 8 word list \<Rightarrow> 32 word list" where
  "sha256_block hs blk =
     (let w = sha256_schedule 48 (map be32 (chunks 4 blk))
      in map2 (+) hs (foldl sha256_round hs (zip sha256_K w)))"

definition hex_digit :: "nat \<Rightarrow> char" where
  "hex_digit d = ''0123456789abcdef'' ! d"

definition hex32 :: "32 word \<Rightarrow> string" where
  "hex32 w = map (\<lambda>i. hex_digit (unat (drop_bit (4 * i) w AND 15))) [7, 6, 5, 4, 3, 2, 1, 0]"

definition sha256_hexdigest :: "8 word list \<Rightarrow> string" where
  "sha256_hexdigest m = concat (map hex32 (foldl sha256_block sha256_H0 (chunks 64 (sha256_pad m))))"

section \<open>generate_python_code: parsing the questions\<close>

datatype pyval = Str string | StrList "string list"

type_synonym pydict = "(string \<times> pyval) list"

text \<open>
  The body of the loop of \<open>generate_python_code\<close> for one line: the list
  \<open>parsed_questions\<close> goes in and comes out, an exception is \<open>Inl\<close>.
\<close>

definition parse_line :: "string \<Rightarrow> string \<Rightarrow> pydict list \<Rightarrow> error + pydict list" where
  "parse_line quiz_type line parsed_questions =
     (if strip line = [] then Inr parsed_questions
      else
        let parts = map strip (split CHR '','' line)
        in if quiz_type = ''Multiple Choice'' then
             if length parts < 3 then Inr parsed_questions
             else
               (case getitem parts 0 of
                  Inl e \<Rightarrow> Inl e
                | Inr q_text \<Rightarrow>
                    let options = slice_1_m1 parts
                    in (case getitem parts (- 1) of
                          Inl e \<Rightarrow> Inl e
                        | Inr answer \<Rightarrow>
                            Inr (parsed_questions @
                              [[(''question'', Str q_text),
                                (''options'', StrList options),
                                (''answer_hash'', Str (sha256_hexdigest (encode (lower answer))))]])))
           else
             if length parts < 2 then Inr parsed_questions
             else
               (case getitem parts 0 of
                  Inl e \<Rightarrow> Inl e
                | Inr q_text \<Rightarrow>
                    (case getitem parts 1 of
                       Inl e \<Rightarrow> Inl e
                     | Inr answer \<Rightarrow>
                         Inr (parsed_questions @
                           [[(''question'', Str q_text),
                             (''answer_hash'', Str (sha256_hexdigest (encode (lower answer))))]]))))"

fun parse_lines :: "string \<Rightarrow> string list \<Rightarrow> pydict list \<Rightarrow> error + pydict list" where
  "parse_lines quiz_type [] parsed_questions = Inr parsed_questions"
| "parse_lines quiz_type (line # rest) parsed_questions =
     (case parse_line quiz_type line parsed_questions of
        Inl e \<Rightarrow> Inl e
      | Inr parsed_questions' \<Rightarrow> parse_lines quiz_type rest parsed_questions')"

definition parse_questions :: "string \<Rightarrow> string \<Rightarrow> error + pydict list" where
  "parse_questions quiz_type questions_text =
     parse_lines quiz_type (split CHR ''\<newline>'' (strip questions_text)) []"

text \<open>The lines the loop of \<open>generate_python_code\<close> runs over.\<close>

definition input_lines :: "string \<Rightarrow> string list" where
  "input_lines questions_text = split CHR ''\<newline>'' (strip questions_text)"

text \<open>The least number of fields of a line that is not skipped.\<close>

definition min_fields :: "string \<Rightarrow> nat" where
  "min_fields quiz_type = (if quiz_type = ''Multiple Choice'' then 3 else 2)"

text \<open>
  The field of a line that the loop binds to \<open>answer\<close>, and the fields it reads
  besides: all but the last in a multiple-choice line, the first in a text-answer line.
\<close>

definition answer_field :: "string \<Rightarrow> string \<Rightarrow> string" where
  "answer_field quiz_type line =
     (let parts = map strip (split CHR '','' line)
      in if quiz_type = ''Multiple Choice'' then last parts else parts ! 1)"

definition other_fields :: "string \<Rightarrow> string \<Rightarrow> string list" where
  "other_fields quiz_type line =
     (let parts = map strip (split CHR '','' line)
      in if quiz_type = ''Multiple Choice'' then butlast parts else [hd parts])"

section \<open>Python floats: \<open>int / int\<close> and the literal \<open>0.8\<close>\<close>

text \<open>
  A float is the rational it stands for. \<open>binary64 q\<close> is the IEEE 754 double nearest
  to \<open>q\<close> (ties to the even significand, subnormals below \<open>2^-1022\<close>), which is what
  CPython computes for a float literal and for the quotient of two integers.
\<close>

definition round_half_even :: "rat \<Rightarrow> int" where
  "round_half_even x =
     (let f = \<lfloor>x\<rfloor>; d = x - of_int f
      in if d < 1 / 2 then f else if 1 / 2 < d then f + 1 else if even f then f else f + 1)"

function exp_up :: "rat \<Rightarrow> nat" where
  "exp_up q = (if 2 \<le> q then Suc (exp_up (q / 2)) else 0)"
  by pat_completeness auto
termination
proof (relation "measure (\<lambda>q. nat \<lfloor>q\<rfloor>)")
  fix q :: rat
  assume q: "2 \<le> q"
  have "q / 2 \<le> q - 1" using q by simp
  then have "\<lfloor>q / 2\<rfloor> \<le> \<lfloor>q - 1\<rfloor>" by (rule floor_mono)
  moreover have "2 \<le> \<lfloor>q\<rfloor>" using q by (simp add: le_floor_iff)
  ultimately show "(q / 2, q) \<in> measure (\<lambda>q. nat \<lfloor>q\<rfloor>)" by simp
qed simp

function exp_down :: "rat \<Rightarrow> nat" where
  "exp_down q = (if 0 < q \<and> q < 1 then Suc (exp_down (2 * q)) else 0)"
  by pat_completeness auto
termination
proof (relation "measure (\<lambda>q. nat \<lceil>1 / q\<rceil>)")
  fix q :: rat
  assume q: "0 < q \<and> q < 1"
  define x where "x = 1 / q"
  have x: "1 < x" using q by (simp add: x_def)
  then have "1 < \<lceil>x\<rceil>" by (simp add: less_ceiling_iff)
  then have c: "2 \<le> \<lceil>x\<rceil>" by simp
  then have c': "(2 :: rat) \<le> of_int \<lceil>x\<rceil>"
    using of_int_le_iff [of 2 "\<lceil>x\<rceil>", where ?'a = rat] by simp
  have "x \<le> of_int \<lceil>x\<rceil>" by (rule le_of_int_ceiling)
  with c' have "x / 2 \<le> of_int \<lceil>x\<rceil> - 1" by linarith
  then have "x / 2 \<le> of_int (\<lceil>x\<rceil> - 1)" by simp
  then have "\<lceil>x / 2\<rceil> \<le> \<lceil>x\<rceil> - 1" by (simp only: ceiling_le_iff)
  with c have "nat \<lceil>x / 2\<rceil> < nat \<lceil>x\<rceil>" by linarith
  moreover have "1 / (2 * q) = x / 2" by (simp add: x_def)
  ultimately have "nat \<lceil>1 / (2 * q)\<rceil> < nat \<lceil>1 / q\<rceil>"
    by (simp only: x_def)
  then show "(2 * q, q) \<in> measure (\<lambda>q. nat \<lceil>1 / q\<rceil>)"
    by (simp only: in_measure)
qed simp

declare exp_up.simps [simp del]
declare exp_down.simps [simp del]

text \<open>The exponent \<open>e\<close> of a positive \<open>q\<close>: \<open>2^e \<le> q < 2^(e + 1)\<close>.\<close>

definition fexp :: "rat \<Rightarrow> int" where
  "fexp q = (if 1 \<le> q then int (exp_up q) else - int (exp_down q))"

definition binary64 :: "rat \<Rightarrow> rat" where
  "binary64 q =
     (if q = 0 then 0
      else
        let e = max (fexp \<bar>q\<bar>) (- 1022);
            ulp = 2 powi (e - 52)
        in sgn q * of_int (round_half_even (\<bar>q\<bar> / ulp)) * ulp)"

text \<open>\<open>a / b\<close> for two non-negative integers.\<close>

definition truediv :: "nat \<Rightarrow> nat \<Rightarrow> error + rat" where
  "truediv a b =
     (if b = 0 then Inl ZeroDivisionError
      else
        let r = binary64 (of_nat a / of_nat b)
        in if 2 ^ 1024 \<le> r then Inl OverflowError else Inr r)"

section \<open>The emitted script: generate_certificate and eval_quiz\<close>

text \<open>
  What the emitted script reads from and writes to its environment: the results of
  \<open>uuid.uuid4()\<close> in call order, the temporary directory, the date as
  \<open>strftime("%d %B %Y")\<close> prints it, and the certificates saved so far (path and the
  strings drawn on the page, in drawing order).
\<close>

record world =
  uuid4 :: "nat \<Rightarrow> string"
  uuid4_calls :: nat
  gettempdir :: string
  date_str :: string
  saved :: "(string \<times> string list) list"

text \<open>\<open>os.path.join(a, b)\<close> for a relative \<open>b\<close>.\<close>

definition path_join :: "string \<Rightarrow> string \<Rightarrow> string" where
  "path_join a b = (if a = [] \<or> last a = CHR ''/'' then a @ b else a @ ''/'' @ b)"

definition generate_certificate ::
  "world \<Rightarrow> string \<Rightarrow> nat \<Rightarrow> nat \<Rightarrow> string \<Rightarrow> string \<times> world" where
  "generate_certificate w name score total' instructor =
     (let unique_id = uuid4 w (uuid4_calls w);
          filename = ''cert_'' @ unique_id @ ''.pdf'';
          filepath = path_join (gettempdir w) filename;
          page =
            [''Certificate of Completion'',
             ''This is awarded to'',
             name,
             ''For successfully completing the quiz'',
             ''Score: '' @ str_nat score @ '' / '' @ str_nat total',
             ''Instructor: '' @ instructor,
             ''Issued on: '' @ date_str w]
      in (filepath,
          w\<lparr>uuid4_calls := Suc (uuid4_calls w), saved := saved w @ [(filepath, page)]\<rparr>))"

text \<open>
  An answer arrives from the form as a string, or as \<open>None\<close> when nothing was chosen.
  The loop of \<open>eval_quiz\<close> over \<open>enumerate(answers)\<close>, from index \<open>i\<close> on: an answer
  that is \<open>None\<close> or empty is falsy and is passed over before \<open>questions[i]\<close> is read.
\<close>

fun eval_quiz_score ::
  "pydict list \<Rightarrow> nat \<Rightarrow> string option list \<Rightarrow> nat \<Rightarrow> error + nat" where
  "eval_quiz_score questions i [] score = Inr score"
| "eval_quiz_score questions i (ans # answers) score =
     (case ans of
        None \<Rightarrow> eval_quiz_score questions (Suc i) answers score
      | Some a \<Rightarrow>
          if a = [] then eval_quiz_score questions (Suc i) answers score
          else
            let digest = sha256_hexdigest (encode (strip (lower a)))
            in (case getitem questions (int i) of
                  Inl e \<Rightarrow> Inl e
                | Inr q \<Rightarrow>
                    (case map_of q ''answer_hash'' of
                       None \<Rightarrow> Inl KeyError
                     | Some h \<Rightarrow>
                         if Str digest = h
                         then eval_quiz_score questions (Suc i) answers (score + 1)
                         else eval_quiz_score questions (Suc i) answers score)))"

text \<open>
  The rest of \<open>eval_quiz\<close>, from \<open>total_questions = len(questions)\<close> on, for a
  score and a number of questions: \<open>and\<close> evaluates the division only when
  \<open>total_questions > 0\<close>.
\<close>

definition eval_quiz_result ::
  "world \<Rightarrow> string \<Rightarrow> string \<Rightarrow> nat \<Rightarrow> nat \<Rightarrow> error + (string \<times> string option) \<times> world" where
  "eval_quiz_result w instructor name score total_questions =
     (let passing_threshold = binary64 (4 / 5);
          result_message =
            ''Hi '' @ name @ '', your score is: '' @ str_nat score @ '' / '' @
            str_nat total_questions @ ''.''
      in (case (if total_questions > 0
                then (case truediv score total_questions of
                        Inl e \<Rightarrow> Inl e
                      | Inr ratio \<Rightarrow> Inr (passing_threshold \<le> ratio))
                else Inr False) of
            Inl e \<Rightarrow> Inl e
          | Inr True \<Rightarrow>
              (let (cert_path, w') = generate_certificate w name score total_questions instructor
               in Inr ((result_message @ '' Congratulations, you passed and earned a certificate!'',
                        Some cert_path), w'))
          | Inr False \<Rightarrow>
              Inr ((result_message @ '' A score of 80% is required to receive a certificate.'',
                    None), w)))"

definition eval_quiz ::
  "world \<Rightarrow> string \<Rightarrow> pydict list \<Rightarrow> string \<Rightarrow> string option list \<Rightarrow>
     error + (string \<times> string option) \<times> world" where
  "eval_quiz w instructor questions name answers =
     (let name = (if strip name = [] then ''Anonymous'' else name)
      in (case eval_quiz_score questions 0 answers 0 of
            Inl e \<Rightarrow> Inl e
          | Inr score \<Rightarrow> eval_quiz_result w instructor name score (length questions)))"

text \<open>What a run of the emitted routine amounts to: it returned; it returned a certificate path.\<close>

definition returns :: "error + 'a \<Rightarrow> bool" where
  "returns r = (case r of Inl e \<Rightarrow> False | Inr v \<Rightarrow> True)"

definition certificate_issued :: "error + (string \<times> string option) \<times> world \<Rightarrow> bool" where
  "certificate_issued r = (case r of Inl e \<Rightarrow> False | Inr ((m, c), w) \<Rightarrow> c \<noteq> None)"

section \<open>generate_python_code: the emitted script\<close>

text \<open>
  \<open>repr\<close> of a string: single quotes, unless the string holds a single quote and no
  double quote; the quote in use and the backslash are escaped, tab, newline and carriage
  return are written \<open>\t\<close>, \<open>\n\<close>, \<open>\r\<close>, and any other character that is
  not printable is written \<open>\xhh\<close>.
\<close>

definition isprintable :: "char \<Rightarrow> bool" where
  "isprintable c =
     (let n = (of_char c :: nat)
      in (32 \<le> n \<and> n \<le> 126) \<or> (161 \<le> n \<and> n \<noteq> 173))"

definition repr_char :: "char \<Rightarrow> char \<Rightarrow> string" where
  "repr_char quote c =
     (if c = quote \<or> c = CHR 0x5C then [CHR 0x5C, c]
      else if c = CHR 0x09 then [CHR 0x5C, CHR ''t'']
      else if c = CHR 0x0A then [CHR 0x5C, CHR ''n'']
      else if c = CHR 0x0D then [CHR 0x5C, CHR ''r'']
      else if isprintable c then [c]
      else [CHR 0x5C, CHR ''x'', hex_digit (of_char c div 16), hex_digit (of_char c mod 16)])"

definition repr_str :: "string \<Rightarrow> string" where
  "repr_str s =
     (let quote = (if CHR 0x27 \<in> set s \<and> CHR 0x22 \<notin> set s then CHR 0x22 else CHR 0x27)
      in [quote] @ concat (map (repr_char quote) s) @ [quote])"

text \<open>\<open>sep.join(xs)\<close>, and \<open>repr\<close> of a list and of a dict whose keys are strings.\<close>

fun str_join :: "string \<Rightarrow> string list \<Rightarrow> string" where
  "str_join sep [] = []"
| "str_join sep [x] = x"
| "str_join sep (x # y # ys) = x @ sep @ str_join sep (y # ys)"

definition repr_list :: "string list \<Rightarrow> string" where
  "repr_list items = ''['' @ str_join '', '' items @ '']''"

fun repr_pyval :: "pyval \<Rightarrow> string" where
  "repr_pyval (Str s) = repr_str s"
| "repr_pyval (StrList xs) = repr_list (map repr_str xs)"

definition repr_dict :: "pydict \<Rightarrow> string" where
  "repr_dict d = ''{'' @ str_join '', '' (map (\<lambda>(k, v). repr_str k @ '': '' @ repr_pyval v) d) @ ''}''"

definition repr_questions :: "pydict list \<Rightarrow> string" where
  "repr_questions parsed_questions = repr_list (map repr_dict parsed_questions)"

text \<open>
  The f-string of \<open>generate_python_code\<close>, line by line: \<open>{instructor}\<close>,
  \<open>{quiz_type}\<close> and \<open>{title}\<close> are replaced by the strings themselves,
  \<open>{parsed_questions}\<close> by the \<open>repr\<close> of the list, and a doubled brace is one
  brace of the emitted script.
\<close>

definition python_code :: "string \<Rightarrow> string \<Rightarrow> string \<Rightarrow> pydict list \<Rightarrow> string" where
  "python_code title instructor quiz_type parsed_questions = concat
     [''!pip install gradio reportlab\<newline>'',
      ''# --- Generated Quiz App ---\<newline>'',
      ''# Copy and paste this entire code block into a single Google Colab cell and run it.\<newline>'',
      ''\<newline>'',
      ''import gradio as gr\<newline>'',
      ''import uuid, os, tempfile, hashlib\<newline>'',
      ''from reportlab.lib.pagesizes import A5, landscape\<newline>'',
      ''from reportlab.pdfgen import canvas\<newline>'',
      ''from reportlab.lib.units import mm\<newline>'',
      ''from reportlab.lib.colors import HexColor\<newline>'',
      ''from datetime import datetime\<newline>'',
      ''\<newline>'',
      ''# Certificate generation function (included for a self-contained script)\<newline>'',
      ''def generate_certificate(name, score, total, instructor=\"'', instructor, ''\"):\<newline>'',
      ''    unique_id = str(uuid.uuid4())\<newline>'',
      ''    filename = f\"cert_{unique_id}.pdf\"\<newline>'',
      ''    filepath = os.path.join(tempfile.gettempdir(), filename)\<newline>'',
      ''    c = canvas.Canvas(filepath, pagesize=landscape(A5))\<newline>'',
      ''    width, height = landscape(A5)\<newline>'',
      ''    c.setFillColor(HexColor(\"#fffdf6\"))\<newline>'',
      ''    c.rect(0, 0, width, height, stroke=0, fill=1)\<newline>'',
      ''    c.setStrokeColor(HexColor(\"#001858\"))\<newline>'',
      ''    c.setLineWidth(3)\<newline>'',
      ''    margin = 10 * mm\<newline>'',
      ''    c.rect(margin, margin, width - 2 * margin, height - 2 * margin)\<newline>'',
      ''    c.setFillColor(HexColor(\"#001858\"))\<newline>'',
      ''    c.setFont(\"Helvetica-Bold\", 24)\<newline>'',
      ''    c.drawCentredString(width / 2, height - 60, \"Certificate of Completion\")\<newline>'',
      ''    c.setFont(\"Helvetica\", 14)\<newline>'',
      ''    c.drawCentredString(width / 2, height - 100, \"This is awarded to\")\<newline>'',
      ''    c.setFont(\"Helvetica-Bold\", 18)\<newline>'',
      ''    c.drawCentredString(width / 2, height - 130, name)\<newline>'',
      ''    c.setFont(\"Helvetica\", 14)\<newline>'',
      ''    c.drawCentredString(width / 2, height - 160, \"For successfully completing the quiz\")\<newline>'',
      ''    c.setFont(\"Helvetica\", 12)\<newline>'',
      ''    c.drawCentredString(width / 2, height - 185, f\"Score: {score} / {total}\")\<newline>'',
      ''    c.setFont(\"Helvetica-Oblique\", 10)\<newline>'',
      ''    c.drawString(margin + 10, margin + 20, f\"Instructor: {instructor}\")\<newline>'',
      ''    date_str = datetime.now().strftime(\"%d %B %Y\")\<newline>'',
      ''    c.setFont(\"Helvetica\", 10)\<newline>'',
      ''    c.drawRightString(width - margin - 10, margin + 20, f\"Issued on: {date_str}\")\<newline>'',
      ''    c.save()\<newline>'',
      ''    return filepath\<newline>'',
      ''\<newline>'',
      ''# Quiz data (answers are hashed)\<newline>'',
      ''quiz_type = \"'', quiz_type, ''\"\<newline>'',
      ''questions = '', repr_questions parsed_questions, ''\<newline>'',
      ''\<newline>'',
      ''def eval_quiz(name, *answers):\<newline>'',
      ''    \"\"\"\<newline>'',
      ''    Evaluates the student's answers and generates a certificate only if the score is 80% or higher.\<newline>'',
      ''    \"\"\"\<newline>'',
      ''    if not name.strip():\<newline>'',
      ''        name = \"Anonymous\"\<newline>'',
      ''    score = 0\<newline>'',
      ''    for i, ans in enumerate(answers):\<newline>'',
      ''        if ans and hashlib.sha256(str(ans).lower().strip().encode()).hexdigest() == questions[i][\"answer_hash\"]:\<newline>'',
      ''            score += 1\<newline>'',
      ''    \<newline>'',
      ''    total_questions = len(questions)\<newline>'',
      ''    passing_threshold = 0.8\<newline>'',
      ''    \<newline>'',
      ''    result_message = f\"Hi {name}, your score is: {score} / {total_questions}.\"\<newline>'',
      ''    cert_path = None # Default to no certificate\<newline>'',
      ''\<newline>'',
      ''    # Check if the score meets the passing threshold\<newline>'',
      ''    if total_questions > 0 and (score / total_questions) >= passing_threshold:\<newline>'',
      ''        cert_path = generate_certificate(name, score, total_questions, instructor=\"'', instructor, ''\")\<newline>'',
      ''        result_message += \" Congratulations, you passed and earned a certificate!\"\<newline>'',
      ''    else:\<newline>'',
      ''        result_message += \" A score of 80% is required to receive a certificate.\"\<newline>'',
      ''\<newline>'',
      ''    return result_message, cert_path\<newline>'',
      ''\<newline>'',
      ''# Gradio interface for the student\<newline>'',
      ''with gr.Blocks(theme=gr.themes.Soft()) as app:\<newline>'',
      ''    gr.Markdown(\"## '', title, ''\")\<newline>'',
      ''    \<newline>'',
      ''    with gr.Row():\<newline>'',
      ''        name = gr.Textbox(label=\"Enter Your Full Name to Generate Certificate\", placeholder=\"e.g., Ada Lovelace\")\<newline>'',
      ''\<newline>'',
      ''    answer_inputs = []\<newline>'',
      ''    for q in questions:\<newline>'',
      ''        gr.Markdown(\"**Question:** \" + q['question'])\<newline>'',
      ''        if quiz_type == \"Multiple Choice\":\<newline>'',
      ''            answer_inputs.append(gr.Radio(choices=q[\"options\"], label=\"Select your answer\"))\<newline>'',
      ''        else:\<newline>'',
      ''            answer_inputs.append(gr.Textbox(label=\"Type your answer\"))\<newline>'',
      ''\<newline>'',
      ''    submit_btn = gr.Button(\"Submit Quiz\")\<newline>'',
      ''    \<newline>'',
      ''    with gr.Row():\<newline>'',
      ''        result_output = gr.Textbox(label=\"Your Result\")\<newline>'',
      ''        certificate_output = gr.File(label=\"Download Your Certificate\")\<newline>'',
      ''\<newline>'',
      ''    submit_btn.click(\<newline>'',
      ''        fn=eval_quiz, \<newline>'',
      ''        inputs=[name] + answer_inputs, \<newline>'',
      ''        outputs=[result_output, certificate_output]\<newline>'',
      ''    )\<newline>'',
      ''\<newline>'',
      ''app.launch(debug=True)\<newline>'']"

definition generate_python_code :: "string \<Rightarrow> string \<Rightarrow> string \<Rightarrow> string \<Rightarrow> error + string" where
  "generate_python_code title instructor quiz_type questions_text =
     (case parse_questions quiz_type questions_text of
        Inl e \<Rightarrow> Inl e
      | Inr parsed_questions \<Rightarrow> Inr (python_code title instructor quiz_type parsed_questions))"

section \<open>The form of the instructor's page\<close>

text \<open>
  What the page shows after the form: the calls made on \<open>st\<close>, in order. A text input
  holds a string, empty when nothing was typed; \<open>all\<close> tests each of the three for truth,
  and a string is true when it is not empty.
\<close>

datatype st_call =
  St_error string
| St_header string
| St_markdown string
| St_code string string

definition form_submission ::
  "bool \<Rightarrow> string \<Rightarrow> string \<Rightarrow> string \<Rightarrow> string \<Rightarrow> error + st_call list" where
  "form_submission submitted title instructor quiz_type questions_text =
     (if submitted then
        if \<not> list_all (\<lambda>s. s \<noteq> []) [title, instructor, questions_text]
        then Inr [St_error ''Please fill in all fields to generate the code.'']
        else
          (case generate_python_code title instructor quiz_type questions_text of
             Inl e \<Rightarrow> Inl e
           | Inr generated_code \<Rightarrow>
               Inr [St_header ''2. Copy Your Generated Code'',
                    St_markdown
                      ''Paste this entire code block into a single Google Colab cell and run it.'',
                    St_code generated_code ''python''])
      else Inr [])"

section \<open>Strings, indexing and slices\<close>

lemma split_not_Nil: "split sep s \<noteq> []"
  by (induction s) (auto split: list.splits)

lemma length_split: "length (split sep s) = Suc (length (filter (\<lambda>c. c = sep) s))"
  by (induction s) (auto split: list.splits simp: split_not_Nil)

lemma lstrip_Nil_iff: "lstrip s = [] \<longleftrightarrow> (\<forall>c \<in> set s. isspace c)"
  by (simp add: lstrip_def dropWhile_eq_Nil_conv)

lemma rstrip_Nil_iff: "rstrip s = [] \<longleftrightarrow> (\<forall>c \<in> set s. isspace c)"
  by (simp add: rstrip_def dropWhile_eq_Nil_conv)

lemma strip_Nil_iff: "strip s = [] \<longleftrightarrow> (\<forall>c \<in> set s. isspace c)"
proof
  assume "strip s = []"
  then have all: "\<forall>c \<in> set (lstrip s). isspace c"
    by (simp add: strip_def rstrip_Nil_iff)
  have "lstrip s = []"
  proof (rule ccontr)
    assume "lstrip s \<noteq> []"
    then have "\<not> isspace (hd (lstrip s))" "hd (lstrip s) \<in> set (lstrip s)"
      unfolding lstrip_def by (simp_all add: hd_dropWhile)
    with all show False by blast
  qed
  then show "\<forall>c \<in> set s. isspace c" by (simp add: lstrip_Nil_iff)
next
  assume "\<forall>c \<in> set s. isspace c"
  then have "lstrip s = []" by (simp add: lstrip_Nil_iff)
  then show "strip s = []" by (simp add: strip_def rstrip_def)
qed

lemma comma_not_space: "\<not> isspace CHR '',''"
  by (simp add: isspace_def)

lemma two_fields_not_blank:
  assumes "2 \<le> length (split CHR '','' line)"
  shows "strip line \<noteq> []"
proof -
  have "CHR '','' \<in> set line"
  proof (rule ccontr)
    assume "CHR '','' \<notin> set line"
    then have "filter (\<lambda>c. c = CHR '','') line = []"
      by (induction line) auto
    then have "length (split CHR '','' line) = 1"
      by (simp add: length_split)
    with assms show False by simp
  qed
  with comma_not_space show ?thesis
    by (auto simp: strip_Nil_iff)
qed

lemma getitem_first: "xs \<noteq> [] \<Longrightarrow> getitem xs 0 = Inr (hd xs)"
  by (cases xs) (simp_all add: getitem_def)

lemma getitem_second: "2 \<le> length xs \<Longrightarrow> getitem xs 1 = Inr (xs ! 1)"
  by (simp add: getitem_def)

lemma getitem_last: "xs \<noteq> [] \<Longrightarrow> getitem xs (- 1) = Inr (last xs)"
  by (auto simp: getitem_def last_conv_nth nat_diff_distrib' int_ops)

lemma slice_1_m1_middle: "slice_1_m1 xs = butlast (tl xs)"
  by (simp add: slice_1_m1_def butlast_conv_take drop_Suc tl_take flip: butlast_tl)

section \<open>Parsing one line\<close>

lemma mc_line_fields:
  assumes "3 \<le> length (split CHR '','' line)"
  shows "parse_line ''Multiple Choice'' line parsed_questions =
     Inr (parsed_questions @
       [[(''question'', Str (strip (hd (split CHR '','' line)))),
         (''options'', StrList (map strip (butlast (tl (split CHR '','' line))))),
         (''answer_hash'',
            Str (sha256_hexdigest (encode (lower (strip (last (split CHR '','' line)))))))]])"
proof -
  let ?fields = "split CHR '','' line"
  have ne: "?fields \<noteq> []" by (rule split_not_Nil)
  have nb: "strip line \<noteq> []" using assms by (intro two_fields_not_blank) simp
  have g0: "getitem (map strip ?fields) 0 = Inr (strip (hd ?fields))"
    using ne by (simp add: getitem_first hd_map)
  have g1: "getitem (map strip ?fields) (- 1) = Inr (strip (last ?fields))"
    using ne by (simp add: getitem_last last_map)
  have sl: "slice_1_m1 (map strip ?fields) = map strip (butlast (tl ?fields))"
    by (simp add: slice_1_m1_middle map_butlast map_tl)
  show ?thesis
    using assms nb unfolding parse_line_def Let_def g0 g1 sl by simp
qed

text \<open>
  C1. A multiple-choice line that splits on commas into at least three fields appends
  exactly one record to \<open>parsed_questions\<close>: its question is the first trimmed field,
  its options are the trimmed fields between the first and the last, in order, and its
  answer_hash is the SHA-256 hex digest of the lowercased last trimmed field.
\<close>

theorem multiple_choice_line_record:
  assumes "3 \<le> length (split CHR '','' line)"
  shows "parse_line ''Multiple Choice'' line parsed_questions =
     Inr (parsed_questions @
       [[(''question'', Str (strip (hd (split CHR '','' line)))),
         (''options'', StrList (map strip (butlast (tl (split CHR '','' line))))),
         (''answer_hash'',
            Str (sha256_hexdigest (encode (lower (strip (last (split CHR '','' line)))))))]])"
  using mc_line_fields [OF assms] .

lemmas str_eval = strip_def lstrip_def rstrip_def isspace_def lower_def lower_char_def

theorem multiple_choice_line_record_witness:
  "3 \<le> length (split CHR '','' '' Q , a,b , b '') \<and>
   parse_line ''Multiple Choice'' '' Q , a,b , b '' [] =
     Inr [[(''question'', Str ''Q''), (''options'', StrList [''a'', ''b'']),
           (''answer_hash'', Str (sha256_hexdigest (encode ''b'')))]]"
  using multiple_choice_line_record [of "'' Q , a,b , b ''" "[]"]
  by (simp add: str_eval)

lemma text_line_fields:
  assumes "quiz_type \<noteq> ''Multiple Choice''" and "2 \<le> length (split CHR '','' line)"
  shows "parse_line quiz_type line parsed_questions =
     Inr (parsed_questions @
       [[(''question'', Str (strip (hd (split CHR '','' line)))),
         (''answer_hash'',
            Str (sha256_hexdigest (encode (lower (strip (split CHR '','' line ! 1))))))]])"
proof -
  let ?fields = "split CHR '','' line"
  have ne: "?fields \<noteq> []" by (rule split_not_Nil)
  have nb: "strip line \<noteq> []" using assms(2) by (rule two_fields_not_blank)
  have g0: "getitem (map strip ?fields) 0 = Inr (strip (hd ?fields))"
    using ne by (simp add: getitem_first hd_map)
  have g1: "getitem (map strip ?fields) 1 = Inr (strip (?fields ! 1))"
    using assms(2) by (simp add: getitem_second)
  show ?thesis
    using assms nb unfolding parse_line_def Let_def g0 g1 by simp
qed

text \<open>
  C2. A text-answer line (any quiz type other than "Multiple Choice") that splits on
  commas into at least two fields appends exactly one record: its question is the first
  trimmed field, its answer_hash is the SHA-256 hex digest of the lowercased trimmed
  answer field, and it has no options key.
\<close>

theorem text_answer_line_record:
  assumes "quiz_type \<noteq> ''Multiple Choice''" and "2 \<le> length (split CHR '','' line)"
  shows "\<exists>r. parse_line quiz_type line parsed_questions = Inr (parsed_questions @ [r]) \<and>
     r = [(''question'', Str (strip (hd (split CHR '','' line)))),
          (''answer_hash'',
             Str (sha256_hexdigest (encode (lower (strip (split CHR '','' line ! 1))))))] \<and>
     map_of r ''options'' = None"
  using text_line_fields [OF assms] by simp

theorem text_answer_line_record_witness:
  "''Text Answer'' \<noteq> ''Multiple Choice'' \<and> 2 \<le> length (split CHR '','' ''Capital of France? , paris '') \<and>
   (\<exists>r. parse_line ''Text Answer'' ''Capital of France? , paris '' [] = Inr ([] @ [r]) \<and>
     r = [(''question'', Str ''Capital of France?''),
          (''answer_hash'', Str (sha256_hexdigest (encode ''paris'')))] \<and>
     map_of r ''options'' = None)"
  using text_answer_line_record [of "''Text Answer''" "''Capital of France? , paris ''" "[]"]
  by (simp add: str_eval)

text \<open>
  C9. In text-answer mode the answer is the second comma-separated field: whatever
  fields follow it are discarded, and answer_hash is computed from the second trimmed
  field only.
\<close>

theorem text_answer_uses_second_field:
  assumes "quiz_type \<noteq> ''Multiple Choice''" and "split CHR '','' line = q # a # rest"
  shows "parse_line quiz_type line parsed_questions =
     Inr (parsed_questions @
       [[(''question'', Str (strip q)),
         (''answer_hash'', Str (sha256_hexdigest (encode (lower (strip a)))))]])"
  using text_line_fields [of quiz_type line parsed_questions] assms by simp

theorem text_answer_uses_second_field_witness:
  "''Text Answer'' \<noteq> ''Multiple Choice'' \<and>
   split CHR '','' ''Q,yes,no,maybe'' = ''Q'' # ''yes'' # [''no'', ''maybe''] \<and>
   parse_line ''Text Answer'' ''Q,yes,no,maybe'' [] =
     Inr [[(''question'', Str ''Q''),
           (''answer_hash'', Str (sha256_hexdigest (encode ''yes'')))]]"
  using text_answer_uses_second_field
    [of "''Text Answer''" "''Q,yes,no,maybe''" "''Q''" "''yes''" "[''no'', ''maybe'']" "[]"]
  by (simp add: str_eval)

section \<open>Parsing the whole text\<close>

lemma parse_questions_input_lines:
  "parse_questions quiz_type questions_text =
     parse_lines quiz_type (input_lines questions_text) []"
  by (simp add: parse_questions_def input_lines_def)

lemma parse_line_skip:
  assumes "strip line = [] \<or> length (split CHR '','' line) < min_fields quiz_type"
  shows "parse_line quiz_type line parsed_questions = Inr parsed_questions"
  using assms by (auto simp: parse_line_def min_fields_def Let_def)

lemma parse_line_total:
  "\<exists>new. parse_line quiz_type line parsed_questions = Inr (parsed_questions @ new) \<and>
     length new =
       (if strip line \<noteq> [] \<and> min_fields quiz_type \<le> length (split CHR '','' line)
        then 1 else 0)"
proof (cases "strip line \<noteq> [] \<and> min_fields quiz_type \<le> length (split CHR '','' line)")
  case True
  show ?thesis
  proof (cases "quiz_type = ''Multiple Choice''")
    case mc: True
    with True have "3 \<le> length (split CHR '','' line)" by (simp add: min_fields_def)
    from mc_line_fields [OF this, of parsed_questions] mc True show ?thesis by simp
  next
    case tx: False
    with True have "2 \<le> length (split CHR '','' line)" by (simp add: min_fields_def)
    from text_line_fields [OF tx this, of parsed_questions] True show ?thesis by simp
  qed
next
  case False
  then have "parse_line quiz_type line parsed_questions = Inr parsed_questions"
    by (intro parse_line_skip) auto
  with False show ?thesis by simp
qed

lemma parse_lines_total:
  "\<exists>new. parse_lines quiz_type ls parsed_questions = Inr (parsed_questions @ new) \<and>
     length new =
       length (filter (\<lambda>l. strip l \<noteq> [] \<and> min_fields quiz_type \<le> length (split CHR '','' l)) ls)"
proof (induction ls arbitrary: parsed_questions)
  case Nil
  then show ?case by simp
next
  case (Cons l ls)
  obtain new1 where n1: "parse_line quiz_type l parsed_questions = Inr (parsed_questions @ new1)"
    and l1: "length new1 =
       (if strip l \<noteq> [] \<and> min_fields quiz_type \<le> length (split CHR '','' l) then 1 else 0)"
    using parse_line_total by blast
  obtain new2 where n2: "parse_lines quiz_type ls (parsed_questions @ new1) =
       Inr ((parsed_questions @ new1) @ new2)"
    and l2: "length new2 =
       length (filter (\<lambda>l. strip l \<noteq> [] \<and> min_fields quiz_type \<le> length (split CHR '','' l)) ls)"
    using Cons.IH by blast
  have "parse_lines quiz_type (l # ls) parsed_questions = Inr (parsed_questions @ (new1 @ new2))"
    using n1 n2 by simp
  moreover have "length (new1 @ new2) =
      length (filter (\<lambda>l. strip l \<noteq> [] \<and> min_fields quiz_type \<le> length (split CHR '','' l)) (l # ls))"
    using l1 l2 by simp
  ultimately show ?case by blast
qed

lemma length_filter_mono:
  assumes "\<And>x. P x \<Longrightarrow> Q x"
  shows "length (filter P xs) \<le> length (filter Q xs)"
  using assms by (induction xs) auto

lemma length_filter_less:
  assumes imp: "\<And>x. P x \<Longrightarrow> Q x" and ex: "\<exists>x \<in> set xs. Q x \<and> \<not> P x"
  shows "length (filter P xs) < length (filter Q xs)"
  using ex
proof (induction xs)
  case Nil
  then show ?case by simp
next
  case (Cons x xs)
  have le: "length (filter P xs) \<le> length (filter Q xs)"
    using imp by (rule length_filter_mono)
  show ?case
  proof (cases "Q x \<and> \<not> P x")
    case True
    with le show ?thesis by simp
  next
    case False
    with Cons.prems have "\<exists>x \<in> set xs. Q x \<and> \<not> P x" by auto
    then have "length (filter P xs) < length (filter Q xs)" by (rule Cons.IH)
    with False imp show ?thesis by auto
  qed
qed

text \<open>
  C5. The parser never fails. Blank lines and lines with fewer fields than the quiz type
  needs (three for multiple choice, two otherwise) add no record, every other line adds
  exactly one, so the number of records is the number of non-blank lines with enough
  fields; when some non-blank line has too few fields, there are strictly fewer records
  than non-blank lines.
\<close>

theorem malformed_and_blank_lines_dropped:
  "\<exists>recs. parse_questions quiz_type questions_text = Inr recs \<and>
     length recs =
       length (filter (\<lambda>l. strip l \<noteq> [] \<and> min_fields quiz_type \<le> length (split CHR '','' l))
                 (input_lines questions_text)) \<and>
     ((\<exists>l \<in> set (input_lines questions_text).
          strip l \<noteq> [] \<and> length (split CHR '','' l) < min_fields quiz_type) \<longrightarrow>
      length recs < length (filter (\<lambda>l. strip l \<noteq> []) (input_lines questions_text)))"
proof -
  let ?ls = "input_lines questions_text"
  let ?good = "\<lambda>l. strip l \<noteq> [] \<and> min_fields quiz_type \<le> length (split CHR '','' l)"
  obtain recs where r: "parse_lines quiz_type ?ls [] = Inr ([] @ recs)"
    and n: "length recs = length (filter ?good ?ls)"
    using parse_lines_total by blast
  have "length (filter ?good ?ls) < length (filter (\<lambda>l. strip l \<noteq> []) ?ls)"
    if "\<exists>l \<in> set ?ls. strip l \<noteq> [] \<and> length (split CHR '','' l) < min_fields quiz_type"
  proof (rule length_filter_less)
    show "\<exists>x \<in> set ?ls. strip x \<noteq> [] \<and> \<not> ?good x"
      using that by (auto simp: not_le)
  qed simp
  with r n show ?thesis
    by (auto simp: parse_questions_input_lines)
qed

theorem malformed_and_blank_lines_dropped_witness:
  "''bad,line'' \<in> set (input_lines ''Q1,a,b,a\<newline>\<newline>bad,line\<newline>  \<newline>Q2,x,y,x\<newline>'') \<and>
   strip ''bad,line'' \<noteq> [] \<and>
   length (split CHR '','' ''bad,line'') < min_fields ''Multiple Choice'' \<and>
   length (filter (\<lambda>l. strip l \<noteq> [])
             (input_lines ''Q1,a,b,a\<newline>\<newline>bad,line\<newline>  \<newline>Q2,x,y,x\<newline>'')) = 3 \<and>
   (\<exists>recs. parse_questions ''Multiple Choice''
              ''Q1,a,b,a\<newline>\<newline>bad,line\<newline>  \<newline>Q2,x,y,x\<newline>'' = Inr recs \<and>
           length recs = 2)"
  using malformed_and_blank_lines_dropped
    [of "''Multiple Choice''" "''Q1,a,b,a\<newline>\<newline>bad,line\<newline>  \<newline>Q2,x,y,x\<newline>''"]
  by (auto simp: input_lines_def min_fields_def str_eval)

section \<open>What a record holds\<close>

lemma parse_line_single:
  assumes "parse_line quiz_type line [] = Inr [r]"
  shows "strip line \<noteq> [] \<and> min_fields quiz_type \<le> length (split CHR '','' line)"
proof (rule ccontr)
  assume "\<not> ?thesis"
  then have "parse_line quiz_type line [] = Inr []"
    by (intro parse_line_skip) auto
  with assms show False by simp
qed

lemma hd_butlast_long: "2 \<le> length xs \<Longrightarrow> hd (butlast xs) = hd xs"
  by (cases xs) auto

lemma mc_record_from_parts:
  assumes "3 \<le> length (split CHR '','' line)"
  shows "parse_line ''Multiple Choice'' line [] =
     Inr [[(''question'', Str (hd (other_fields ''Multiple Choice'' line))),
           (''options'', StrList (tl (other_fields ''Multiple Choice'' line))),
           (''answer_hash'',
              Str (sha256_hexdigest (encode (lower (answer_field ''Multiple Choice'' line)))))]]"
proof -
  let ?fields = "split CHR '','' line"
  have ne: "?fields \<noteq> []" by (rule split_not_Nil)
  have "hd (butlast (map strip ?fields)) = strip (hd ?fields)"
    using assms ne by (simp add: hd_butlast_long hd_map)
  moreover have "tl (butlast (map strip ?fields)) = map strip (butlast (tl ?fields))"
    by (simp add: map_butlast [symmetric] map_tl butlast_tl)
  moreover have "last (map strip ?fields) = strip (last ?fields)"
    using ne by (simp add: last_map)
  ultimately show ?thesis
    using mc_line_fields [OF assms, of "[]"]
    by (simp add: other_fields_def answer_field_def)
qed

lemma text_record_from_parts:
  assumes "quiz_type \<noteq> ''Multiple Choice''" and "2 \<le> length (split CHR '','' line)"
  shows "parse_line quiz_type line [] =
     Inr [[(''question'', Str (hd (other_fields quiz_type line))),
           (''answer_hash'',
              Str (sha256_hexdigest (encode (lower (answer_field quiz_type line)))))]]"
proof -
  have "split CHR '','' line \<noteq> []" by (rule split_not_Nil)
  then show ?thesis
    using text_line_fields [OF assms, of "[]"] assms
    by (simp add: other_fields_def answer_field_def hd_map)
qed

text \<open>
  C7 (amended). A record has exactly the keys question, options (multiple choice only)
  and answer_hash, in this order; answer_hash is the digest of the lowercased trimmed
  answer field; and the answer field reaches the record through that digest alone: two
  lines that agree on the fields read besides the answer, and whose answers have the same
  digest, give the same record. The answer's text stands in the record only where it is
  also the question or one of the option fields.
\<close>

theorem answer_enters_record_only_as_digest:
  assumes "parse_line quiz_type line [] = Inr [r]"
  shows "map fst r =
           (if quiz_type = ''Multiple Choice'' then [''question'', ''options'', ''answer_hash'']
            else [''question'', ''answer_hash'']) \<and>
         map_of r ''answer_hash'' =
           Some (Str (sha256_hexdigest (encode (lower (answer_field quiz_type line))))) \<and>
         (\<forall>line' r'.
            parse_line quiz_type line' [] = Inr [r'] \<and>
            other_fields quiz_type line' = other_fields quiz_type line \<and>
            sha256_hexdigest (encode (lower (answer_field quiz_type line'))) =
              sha256_hexdigest (encode (lower (answer_field quiz_type line)))
            \<longrightarrow> r' = r)"
proof (cases "quiz_type = ''Multiple Choice''")
  case True
  have rec: "x = [(''question'', Str (hd (other_fields quiz_type l))),
           (''options'', StrList (tl (other_fields quiz_type l))),
           (''answer_hash'',
              Str (sha256_hexdigest (encode (lower (answer_field quiz_type l)))))]"
    if "parse_line quiz_type l [] = Inr [x]" for l x
  proof -
    have "3 \<le> length (split CHR '','' l)"
      using parse_line_single [OF that] True by (simp add: min_fields_def)
    from mc_record_from_parts [OF this] that True show ?thesis by simp
  qed
  show ?thesis
  proof (intro conjI allI impI)
    show "map fst r =
           (if quiz_type = ''Multiple Choice'' then [''question'', ''options'', ''answer_hash'']
            else [''question'', ''answer_hash''])"
      using rec [OF assms] True by simp
    show "map_of r ''answer_hash'' =
           Some (Str (sha256_hexdigest (encode (lower (answer_field quiz_type line)))))"
      using rec [OF assms] by simp
    fix line' r'
    assume a: "parse_line quiz_type line' [] = Inr [r'] \<and>
            other_fields quiz_type line' = other_fields quiz_type line \<and>
            sha256_hexdigest (encode (lower (answer_field quiz_type line'))) =
              sha256_hexdigest (encode (lower (answer_field quiz_type line)))"
    then have "parse_line quiz_type line' [] = Inr [r']" by simp
    from rec [OF this] rec [OF assms] a show "r' = r" by simp
  qed
next
  case False
  have rec: "x = [(''question'', Str (hd (other_fields quiz_type l))),
           (''answer_hash'',
              Str (sha256_hexdigest (encode (lower (answer_field quiz_type l)))))]"
    if "parse_line quiz_type l [] = Inr [x]" for l x
  proof -
    have "2 \<le> length (split CHR '','' l)"
      using parse_line_single [OF that] False by (simp add: min_fields_def)
    from text_record_from_parts [OF False this] that show ?thesis by simp
  qed
  show ?thesis
  proof (intro conjI allI impI)
    show "map fst r =
           (if quiz_type = ''Multiple Choice'' then [''question'', ''options'', ''answer_hash'']
            else [''question'', ''answer_hash''])"
      using rec [OF assms] False by simp
    show "map_of r ''answer_hash'' =
           Some (Str (sha256_hexdigest (encode (lower (answer_field quiz_type line)))))"
      using rec [OF assms] by simp
    fix line' r'
    assume a: "parse_line quiz_type line' [] = Inr [r'] \<and>
            other_fields quiz_type line' = other_fields quiz_type line \<and>
            sha256_hexdigest (encode (lower (answer_field quiz_type line'))) =
              sha256_hexdigest (encode (lower (answer_field quiz_type line)))"
    then have "parse_line quiz_type line' [] = Inr [r']" by simp
    from rec [OF this] rec [OF assms] a show "r' = r" by simp
  qed
qed

lemma lower_PARIS: "lower ''PARIS'' = ''paris''"
  by (simp add: lower_def lower_char_def char_of_eq_iff)

lemma lower_Paris: "lower ''Paris'' = ''paris''"
  by (simp add: lower_def lower_char_def char_of_eq_iff)

theorem answer_enters_record_only_as_digest_witness:
  "parse_line ''Multiple Choice'' ''Q,x,y,Paris'' [] =
     Inr [[(''question'', Str ''Q''), (''options'', StrList [''x'', ''y'']),
           (''answer_hash'', Str (sha256_hexdigest (encode ''paris'')))]] \<and>
   map fst [(''question'', Str ''Q''), (''options'', StrList [''x'', ''y'']),
            (''answer_hash'', Str (sha256_hexdigest (encode ''paris'')))] =
     [''question'', ''options'', ''answer_hash''] \<and>
   other_fields ''Multiple Choice'' ''Q, x ,y,PARIS'' =
     other_fields ''Multiple Choice'' ''Q,x,y,Paris'' \<and>
   sha256_hexdigest (encode (lower (answer_field ''Multiple Choice'' ''Q, x ,y,PARIS''))) =
     sha256_hexdigest (encode (lower (answer_field ''Multiple Choice'' ''Q,x,y,Paris''))) \<and>
   parse_line ''Multiple Choice'' ''Q, x ,y,PARIS'' [] =
     Inr [[(''question'', Str ''Q''), (''options'', StrList [''x'', ''y'']),
           (''answer_hash'', Str (sha256_hexdigest (encode ''paris'')))]]"
proof -
  have p: "parse_line ''Multiple Choice'' ''Q,x,y,Paris'' [] =
     Inr [[(''question'', Str ''Q''), (''options'', StrList [''x'', ''y'']),
           (''answer_hash'', Str (sha256_hexdigest (encode ''paris'')))]]"
    using mc_line_fields [of "''Q,x,y,Paris''" "[]"]
    by (simp add: strip_def lstrip_def rstrip_def isspace_def lower_Paris)
  have p': "parse_line ''Multiple Choice'' ''Q, x ,y,PARIS'' [] =
     Inr [[(''question'', Str ''Q''), (''options'', StrList [''x'', ''y'']),
           (''answer_hash'', Str (sha256_hexdigest (encode (lower ''PARIS''))))]]"
    using mc_line_fields [of "''Q, x ,y,PARIS''" "[]"]
    by (simp add: strip_def lstrip_def rstrip_def isspace_def)
  have o: "other_fields ''Multiple Choice'' ''Q,x,y,Paris'' = [''Q'', ''x'', ''y'']"
    "other_fields ''Multiple Choice'' ''Q, x ,y,PARIS'' = [''Q'', ''x'', ''y'']"
    by (simp_all add: other_fields_def strip_def lstrip_def rstrip_def isspace_def)
  have a: "answer_field ''Multiple Choice'' ''Q,x,y,Paris'' = ''Paris''"
    "answer_field ''Multiple Choice'' ''Q, x ,y,PARIS'' = ''PARIS''"
    by (simp_all add: answer_field_def strip_def lstrip_def rstrip_def isspace_def)
  from answer_enters_record_only_as_digest [OF p] p p' o a show ?thesis
    by (simp add: lower_PARIS lower_Paris)
qed

text \<open>
  C7 as stated fails: in the line \<open>2+2?,3,4,4\<close> the correct answer is listed among the
  options, as it must be for the student to be able to choose it, so the options field of
  the record holds the plaintext of the answer.
\<close>

theorem plaintext_answer_among_options:
  "parse_line ''Multiple Choice'' ''2+2?,3,4,4'' [] =
     Inr [[(''question'', Str ''2+2?''), (''options'', StrList [''3'', ''4'']),
           (''answer_hash'', Str (sha256_hexdigest (encode ''4'')))]] \<and>
   answer_field ''Multiple Choice'' ''2+2?,3,4,4'' = ''4'' \<and>
   ''4'' \<in> set [''3'', ''4'']"
proof -
  have "parse_line ''Multiple Choice'' ''2+2?,3,4,4'' [] =
     Inr [[(''question'', Str ''2+2?''), (''options'', StrList [''3'', ''4'']),
           (''answer_hash'', Str (sha256_hexdigest (encode ''4'')))]]"
    using mc_line_fields [of "''2+2?,3,4,4''" "[]"] by (simp add: str_eval)
  moreover have "answer_field ''Multiple Choice'' ''2+2?,3,4,4'' = ''4''"
    by (simp add: answer_field_def str_eval)
  ultimately show ?thesis by simp
qed

section \<open>The certificate threshold\<close>

subsection \<open>Rounding to a double\<close>

lemma round_half_even_ge: "of_int k - 1 / 2 < x \<Longrightarrow> k \<le> round_half_even x"
  unfolding round_half_even_def Let_def by (auto split: if_splits) linarith+

lemma round_half_even_less: "x < of_int k - 1 / 2 \<Longrightarrow> round_half_even x < k"
  unfolding round_half_even_def Let_def by (auto split: if_splits) linarith+

lemma round_half_even_le: "of_int (round_half_even x) \<le> x + 1 / 2"
  unfolding round_half_even_def Let_def by (auto split: if_splits) linarith+

lemma round_half_even_of_int: "round_half_even (of_int k) = k"
  unfolding round_half_even_def Let_def by simp

lemma fexp_half: "1 / 2 \<le> q \<Longrightarrow> q < 1 \<Longrightarrow> fexp q = - 1"
  unfolding fexp_def by (simp add: exp_down.simps [of q] exp_down.simps [of "2 * q"])

lemma fexp_small: "0 < q \<Longrightarrow> q < 1 / 2 \<Longrightarrow> fexp q \<le> - 2"
  unfolding fexp_def by (simp add: exp_down.simps [of q] exp_down.simps [of "2 * q"])

lemma fexp_one: "fexp 1 = 0"
  unfolding fexp_def by (simp add: exp_up.simps [of 1])

lemma binary64_0: "binary64 0 = 0"
  by (simp add: binary64_def)

lemma powi_neg_numeral: "(2::rat) powi (- int n) = 1 / 2 ^ n"
  by (simp add: power_int_minus field_simps)

lemma binary64_1: "binary64 1 = 1"
proof -
  have "(2::rat) powi (- 52) = 1 / 2 ^ 52" using powi_neg_numeral [of 52] by simp
  moreover have "round_half_even (2 ^ 52) = 2 ^ 52"
    using round_half_even_of_int [of "2 ^ 52"] by simp
  ultimately show ?thesis by (simp add: binary64_def fexp_one)
qed

lemma binary64_half:
  assumes "1 / 2 \<le> q" "q < 1"
  shows "binary64 q = of_int (round_half_even (q * 2 ^ 53)) / 2 ^ 53"
proof -
  have u: "(2::rat) powi (- 53) = 1 / 2 ^ 53" using powi_neg_numeral [of 53] by simp
  have q: "0 < q" "\<bar>q\<bar> = q" "sgn q = 1" "q \<noteq> 0" using assms by simp_all
  have e: "max (fexp \<bar>q\<bar>) (- 1022) - 52 = - 53" using fexp_half [OF assms] q by simp
  show ?thesis unfolding binary64_def Let_def e u using q by simp
qed

lemma binary64_small:
  assumes "0 < q" "q < 1 / 2"
  shows "binary64 q \<le> q + 1 / 2 ^ 55"
proof -
  define u :: rat where "u = 2 powi (max (fexp \<bar>q\<bar>) (- 1022) - 52)"
  have q: "\<bar>q\<bar> = q" "sgn q = 1" "q \<noteq> 0" using assms by simp_all
  have "max (fexp \<bar>q\<bar>) (- 1022) - 52 \<le> - 54" using fexp_small [OF assms] q by simp
  then have "u \<le> 2 powi (- 54)" unfolding u_def by (rule power_int_increasing) simp
  moreover have "(2::rat) powi (- 54) = 1 / 2 ^ 54" using powi_neg_numeral [of 54] by simp
  ultimately have u54: "u \<le> 1 / 2 ^ 54" by simp
  have u0: "0 < u" unfolding u_def by simp
  have "binary64 q = of_int (round_half_even (q / u)) * u"
    unfolding binary64_def Let_def u_def using q by simp
  also have "\<dots> \<le> (q / u + 1 / 2) * u"
    using round_half_even_le [of "q / u"] u0 by (simp only: mult_le_cancel_right_pos)
  also have "\<dots> = q + u / 2" using u0 by (simp add: field_simps)
  also have "\<dots> \<le> q + 1 / 2 ^ 55" using u54 by simp
  finally show ?thesis .
qed

lemma binary64_threshold: "binary64 (4 / 5) = 7205759403792794 / 2 ^ 53"
proof -
  have "7205759403792794 \<le> round_half_even (4 / 5 * 2 ^ 53)"
    by (rule round_half_even_ge) simp
  moreover have "round_half_even (4 / 5 * 2 ^ 53) < 7205759403792795"
    by (rule round_half_even_less) simp
  ultimately have "round_half_even (4 / 5 * 2 ^ 53) = 7205759403792794" by simp
  then show ?thesis using binary64_half [of "4 / 5"] by simp
qed


lemma ratio_passes:
  fixes score total' :: nat
  assumes "0 < total'" "score \<le> total'" "4 * total' \<le> 5 * score"
  shows "binary64 (4 / 5) \<le> binary64 (of_nat score / of_nat total')"
proof (cases "score = total'")
  case True
  then show ?thesis using assms by (simp add: binary64_1 binary64_threshold)
next
  case False
  define q :: rat where "q = of_nat score / of_nat total'"
  have t: "(0::rat) < of_nat total'" using assms by simp
  have "(of_nat score :: rat) < of_nat total'" using False assms by simp
  then have q1: "q < 1" unfolding q_def using t by simp
  have "(of_nat (4 * total') :: rat) \<le> of_nat (5 * score)"
    using assms(3) by (simp only: of_nat_le_iff)
  then have "(4::rat) * of_nat total' \<le> 5 * of_nat score" by simp
  then have q45: "4 / 5 \<le> q" unfolding q_def using t by (simp add: field_simps)
  then have qh: "1 / 2 \<le> q" by simp
  have "7205759403792794 \<le> round_half_even (q * 2 ^ 53)"
    by (rule round_half_even_ge) (use q45 in simp)
  then have "(7205759403792794::rat) \<le> of_int (round_half_even (q * 2 ^ 53))"
    by (metis of_int_le_iff of_int_numeral)
  then show ?thesis
    unfolding binary64_threshold q_def [symmetric] binary64_half [OF qh q1]
    by (simp add: field_simps)
qed

lemma ratio_fails:
  fixes score total' :: nat
  assumes "0 < total'" "total' < 2 ^ 54" "5 * score < 4 * total'"
  shows "binary64 (of_nat score / of_nat total') < binary64 (4 / 5)"
proof -
  define q :: rat where "q = of_nat score / of_nat total'"
  have t: "(0::rat) < of_nat total'" using assms by simp
  have "(of_nat total' :: rat) < of_nat (2 ^ 54)"
    using assms(2) by (simp only: of_nat_less_iff)
  then have t54: "(of_nat total' :: rat) < 2 ^ 54" by simp
  have "5 * score + 1 \<le> 4 * total'" using assms(3) by simp
  then have "(of_nat (5 * score + 1) :: rat) \<le> of_nat (4 * total')"
    by (simp only: of_nat_le_iff)
  then have "(5::rat) * of_nat score + 1 \<le> 4 * of_nat total'" by simp
  then have "q \<le> 4 / 5 - 1 / (5 * of_nat total')"
    unfolding q_def using t by (simp add: field_simps)
  moreover have "1 / (5 * 2 ^ 54) < 1 / (5 * (of_nat total' :: rat))"
    using t t54 by (simp add: field_simps)
  ultimately have qlt: "q < 4 / 5 - 1 / (5 * 2 ^ 54)" by linarith
  have q0: "0 \<le> q" unfolding q_def by simp
  consider "q = 0" | "0 < q" "q < 1 / 2" | "1 / 2 \<le> q" using q0 by linarith
  then have "binary64 q < 7205759403792794 / 2 ^ 53"
  proof cases
    case 1
    then show ?thesis by (simp add: binary64_0)
  next
    case 2
    have "binary64 q \<le> q + 1 / 2 ^ 55" using 2 by (rule binary64_small)
    then show ?thesis using 2 by simp
  next
    case 3
    have q1: "q < 1" using qlt by simp
    have "round_half_even (q * 2 ^ 53) < 7205759403792794"
      by (rule round_half_even_less) (use qlt in simp)
    then have "of_int (round_half_even (q * 2 ^ 53)) < (7205759403792794::rat)"
      by (metis of_int_less_iff of_int_numeral)
    then show ?thesis unfolding binary64_half [OF 3 q1] by (simp add: field_simps)
  qed
  then show ?thesis unfolding binary64_threshold q_def .
qed


lemma binary64_unit:
  assumes "0 \<le> q" "q \<le> 1"
  shows "binary64 q \<le> 2"
proof -
  consider "q = 0" | "0 < q" "q < 1 / 2" | "1 / 2 \<le> q" "q < 1" | "q = 1"
    using assms by linarith
  then show ?thesis
  proof cases
    case 1
    then show ?thesis by (simp add: binary64_0)
  next
    case 2
    have "binary64 q \<le> q + 1 / 2 ^ 55" using 2 by (rule binary64_small)
    then show ?thesis using 2 by simp
  next
    case 3
    have "of_int (round_half_even (q * 2 ^ 53)) \<le> q * 2 ^ 53 + 1 / 2"
      by (rule round_half_even_le)
    then show ?thesis unfolding binary64_half [OF 3] using 3 by (simp add: field_simps)
  next
    case 4
    then show ?thesis by (simp add: binary64_1)
  qed
qed

lemma truediv_ratio:
  assumes "0 < total'" "score \<le> total'"
  shows "truediv score total' = Inr (binary64 (of_nat score / of_nat total'))"
proof -
  have "(of_nat score :: rat) \<le> of_nat total'" using assms(2) by (simp only: of_nat_le_iff)
  then have "(of_nat score :: rat) / of_nat total' \<le> 1" using assms(1) by simp
  then have "binary64 (of_nat score / of_nat total') \<le> 2" by (intro binary64_unit) simp_all
  moreover have "(2::rat) < 2 ^ 1024" by simp
  ultimately have "\<not> 2 ^ 1024 \<le> binary64 (of_nat score / of_nat total')" by linarith
  then show ?thesis using assms(1) unfolding truediv_def Let_def by simp
qed

lemma eval_quiz_result_issued:
  assumes "0 < total_questions" "score \<le> total_questions"
  shows "returns (eval_quiz_result w instructor name score total_questions)"
    and "certificate_issued (eval_quiz_result w instructor name score total_questions) \<longleftrightarrow>
         binary64 (4 / 5) \<le> binary64 (of_nat score / of_nat total_questions)"
  using assms(1) unfolding eval_quiz_result_def Let_def truediv_ratio [OF assms]
  by (simp_all add: returns_def certificate_issued_def generate_certificate_def Let_def
      split: bool.split)

text \<open>
  C4 (certificate issuance threshold). For a total greater than 0 and a score between 0 and
  the total, the part of \<open>eval_quiz\<close> after the scoring loop returns, and it returns a
  certificate path exactly when the float \<open>score / total_questions\<close> is at least the float
  \<open>0.8\<close>. For every total below \<open>2^54\<close> that is exactly when the ratio of the two
  integers is at least four fifths, \<open>4 * total_questions \<le> 5 * score\<close>.
\<close>

theorem certificate_threshold:
  assumes "0 < total_questions" "score \<le> total_questions"
  shows "returns (eval_quiz_result w instructor name score total_questions) \<and>
         (certificate_issued (eval_quiz_result w instructor name score total_questions) \<longleftrightarrow>
            binary64 (4 / 5) \<le> binary64 (of_nat score / of_nat total_questions)) \<and>
         (total_questions < 2 ^ 54 \<longrightarrow>
            (certificate_issued (eval_quiz_result w instructor name score total_questions) \<longleftrightarrow>
               4 * total_questions \<le> 5 * score))"
proof (intro conjI impI)
  show "returns (eval_quiz_result w instructor name score total_questions)"
    using assms by (rule eval_quiz_result_issued(1))
  show iss: "certificate_issued (eval_quiz_result w instructor name score total_questions) \<longleftrightarrow>
      binary64 (4 / 5) \<le> binary64 (of_nat score / of_nat total_questions)"
    using assms by (rule eval_quiz_result_issued(2))
  assume small: "total_questions < 2 ^ 54"
  show "certificate_issued (eval_quiz_result w instructor name score total_questions) \<longleftrightarrow>
      4 * total_questions \<le> 5 * score"
  proof (cases "4 * total_questions \<le> 5 * score")
    case True
    then show ?thesis using iss ratio_passes [OF assms True] by simp
  next
    case False
    then have "5 * score < 4 * total_questions" by simp
    from ratio_fails [OF assms(1) small this] show ?thesis using iss False by simp
  qed
qed

theorem certificate_threshold_witness:
  "certificate_issued
     (eval_quiz_result
        \<lparr>uuid4 = (\<lambda>n. ''7f3c''), uuid4_calls = 0, gettempdir = ''/tmp'',
         date_str = ''04 November 2026'', saved = []\<rparr> ''Dr. Ada'' ''Sam'' 4 5) \<and>
   certificate_issued
     (eval_quiz_result
        \<lparr>uuid4 = (\<lambda>n. ''7f3c''), uuid4_calls = 0, gettempdir = ''/tmp'',
         date_str = ''04 November 2026'', saved = []\<rparr> ''Dr. Ada'' ''Sam'' 4 4) \<and>
   \<not> certificate_issued
     (eval_quiz_result
        \<lparr>uuid4 = (\<lambda>n. ''7f3c''), uuid4_calls = 0, gettempdir = ''/tmp'',
         date_str = ''04 November 2026'', saved = []\<rparr> ''Dr. Ada'' ''Sam'' 3 4)"
proof -
  let ?w = "\<lparr>uuid4 = (\<lambda>n. ''7f3c''), uuid4_calls = 0, gettempdir = ''/tmp'',
             date_str = ''04 November 2026'', saved = []\<rparr>"
  note t = certificate_threshold [THEN conjunct2, THEN conjunct2]
  show ?thesis
    using t [of 5 4 ?w "''Dr. Ada''" "''Sam''"] t [of 4 4 ?w "''Dr. Ada''" "''Sam''"]
      t [of 4 3 ?w "''Dr. Ada''" "''Sam''"]
    by simp
qed

section \<open>An empty question list\<close>

lemma str_nat_0: "str_nat 0 = ''0''"
  by (simp add: str_nat.simps [of 0] digit_char_def char_of_eq_iff)

lemma eval_quiz_score_falsy:
  assumes "list_all (\<lambda>a. a = None \<or> a = Some []) answers"
  shows "eval_quiz_score questions i answers score = Inr score"
  using assms by (induction answers arbitrary: i) (auto split: option.splits)

lemma eval_quiz_result_empty:
  "eval_quiz_result w instructor name score 0 =
     Inr ((''Hi '' @ name @ '', your score is: '' @ str_nat score @
           '' / 0. A score of 80% is required to receive a certificate.'', None), w)"
  by (simp add: eval_quiz_result_def str_nat_0)

text \<open>
  C10 (empty question list). With no questions, \<open>total_questions\<close> is 0: whatever the
  score, the part of \<open>eval_quiz\<close> after the loop returns the result message and no
  certificate path, and saves no file, although \<open>score / 0\<close> on its own would raise
  (the conjunct \<open>total_questions > 0\<close> is evaluated first). A submission to a quiz
  without questions (no answer, or answers that are all empty or \<open>None\<close>) gets through
  the whole of \<open>eval_quiz\<close> in this way, with score 0.
\<close>

theorem empty_question_list_safe:
  assumes "list_all (\<lambda>a. a = None \<or> a = Some []) answers"
  shows "truediv score 0 = Inl ZeroDivisionError \<and>
         eval_quiz_result w instructor name score 0 =
           Inr ((''Hi '' @ name @ '', your score is: '' @ str_nat score @
                 '' / 0. A score of 80% is required to receive a certificate.'', None), w) \<and>
         eval_quiz w instructor [] name answers =
           Inr ((''Hi '' @ (if strip name = [] then ''Anonymous'' else name) @
                 '', your score is: 0 / 0. A score of 80% is required to receive a certificate.'',
                 None), w)"
proof (intro conjI)
  show "truediv score 0 = Inl ZeroDivisionError" by (simp add: truediv_def)
  show "eval_quiz_result w instructor name score 0 =
           Inr ((''Hi '' @ name @ '', your score is: '' @ str_nat score @
                 '' / 0. A score of 80% is required to receive a certificate.'', None), w)"
    by (rule eval_quiz_result_empty)
  show "eval_quiz w instructor [] name answers =
           Inr ((''Hi '' @ (if strip name = [] then ''Anonymous'' else name) @
                 '', your score is: 0 / 0. A score of 80% is required to receive a certificate.'',
                 None), w)"
    unfolding eval_quiz_def Let_def eval_quiz_score_falsy [OF assms]
    by (simp add: eval_quiz_result_empty str_nat_0)
qed

theorem empty_question_list_safe_witness:
  "list_all (\<lambda>a. a = None \<or> a = Some []) [] \<and>
   eval_quiz
     \<lparr>uuid4 = (\<lambda>n. ''7f3c''), uuid4_calls = 0, gettempdir = ''/tmp'',
      date_str = ''04 November 2026'', saved = []\<rparr> ''Dr. Ada'' [] '' '' [] =
     Inr ((''Hi Anonymous, your score is: 0 / 0. A score of 80% is required to receive a certificate.'',
           None),
          \<lparr>uuid4 = (\<lambda>n. ''7f3c''), uuid4_calls = 0, gettempdir = ''/tmp'',
           date_str = ''04 November 2026'', saved = []\<rparr>)"
  using empty_question_list_safe [of "[]" 0
      "\<lparr>uuid4 = (\<lambda>n. ''7f3c''), uuid4_calls = 0, gettempdir = ''/tmp'',
        date_str = ''04 November 2026'', saved = []\<rparr>" "''Dr. Ada''" "'' ''"]
  by (simp add: strip_def lstrip_def rstrip_def isspace_def)

section \<open>Grading a submission\<close>

lemma isspace_lower_char: "isspace (lower_char c) = isspace c"
  by (auto simp: isspace_def lower_char_def Let_def)

lemma strip_lower: "strip (lower s) = lower (strip s)"
proof -
  have c: "isspace \<circ> lower_char = isspace" by (rule ext) (simp add: isspace_lower_char)
  have d: "dropWhile isspace (map lower_char xs) = map lower_char (dropWhile isspace xs)" for xs
    by (simp add: dropWhile_map c)
  show ?thesis
    unfolding strip_def lstrip_def rstrip_def lower_def
    by (simp add: d rev_map)
qed

lemma digest_of_matching_submission:
  assumes "lower (strip s) = lower field"
  shows "sha256_hexdigest (encode (strip (lower s))) = sha256_hexdigest (encode (lower field))"
  using assms by (simp add: strip_lower)

text \<open>
  C3 (amended). Take a record parsed from a line, standing at index \<open>i\<close> of
  \<open>questions\<close>, and a submission that is not the empty string and equals the answer
  field of the line up to letter case and leading and trailing whitespace. Then the digest
  that \<open>eval_quiz\<close> computes from the submission is the record's \<open>answer_hash\<close>,
  and the loop adds one to the score for it.
\<close>

theorem matching_submission_scores:
  assumes "parse_line quiz_type line [] = Inr [q]"
    and "getitem questions (int i) = Inr q"
    and "s \<noteq> []"
    and "lower (strip s) = lower (answer_field quiz_type line)"
  shows "map_of q ''answer_hash'' = Some (Str (sha256_hexdigest (encode (strip (lower s))))) \<and>
         eval_quiz_score questions i (Some s # answers) score =
           eval_quiz_score questions (Suc i) answers (score + 1)"
proof -
  have "strip line \<noteq> [] \<and> min_fields quiz_type \<le> length (split CHR '','' line)"
    using assms(1) by (rule parse_line_single)
  then have n: "min_fields quiz_type \<le> length (split CHR '','' line)" by simp
  have "map_of q ''answer_hash'' =
      Some (Str (sha256_hexdigest (encode (lower (answer_field quiz_type line)))))"
  proof (cases "quiz_type = ''Multiple Choice''")
    case True
    then have "3 \<le> length (split CHR '','' line)" using n by (simp add: min_fields_def)
    from mc_record_from_parts [OF this] assms(1) True show ?thesis by auto
  next
    case False
    then have "2 \<le> length (split CHR '','' line)" using n by (simp add: min_fields_def)
    from text_record_from_parts [OF False this] assms(1) show ?thesis by auto
  qed
  then have h: "map_of q ''answer_hash'' =
      Some (Str (sha256_hexdigest (encode (strip (lower s)))))"
    by (simp only: digest_of_matching_submission [OF assms(4)])
  show ?thesis
  proof (intro conjI)
    show "map_of q ''answer_hash'' = Some (Str (sha256_hexdigest (encode (strip (lower s)))))"
      by (rule h)
    show "eval_quiz_score questions i (Some s # answers) score =
           eval_quiz_score questions (Suc i) answers (score + 1)"
      using assms(2,3) h by (simp add: Let_def)
  qed
qed

lemma strip_PARIS: "strip '' PARIS '' = ''PARIS''"
  by (simp add: strip_def lstrip_def rstrip_def isspace_def)

theorem matching_submission_scores_witness:
  "parse_line ''Text Answer'' ''Capital of France?, Paris'' [] =
     Inr [[(''question'', Str ''Capital of France?''),
           (''answer_hash'', Str (sha256_hexdigest (encode ''paris'')))]] \<and>
   answer_field ''Text Answer'' ''Capital of France?, Paris'' = ''Paris'' \<and>
   lower (strip '' PARIS '') = lower ''Paris'' \<and>
   eval_quiz_score
     [[(''question'', Str ''Capital of France?''),
       (''answer_hash'', Str (sha256_hexdigest (encode ''paris'')))]] 0 [Some '' PARIS ''] 0 =
     Inr 1"
proof -
  let ?q = "[(''question'', Str ''Capital of France?''),
             (''answer_hash'', Str (sha256_hexdigest (encode ''paris'')))]"
  have p: "parse_line ''Text Answer'' ''Capital of France?, Paris'' [] = Inr [?q]"
    using text_line_fields [of "''Text Answer''" "''Capital of France?, Paris''" "[]"]
    by (simp add: strip_def lstrip_def rstrip_def isspace_def lower_Paris)
  have a: "answer_field ''Text Answer'' ''Capital of France?, Paris'' = ''Paris''"
    by (simp add: answer_field_def strip_def lstrip_def rstrip_def isspace_def)
  have g: "getitem [?q] (int 0) = Inr ?q" by (simp add: getitem_def)
  have e: "lower (strip '' PARIS '') = lower (answer_field ''Text Answer'' ''Capital of France?, Paris'')"
    by (simp only: a strip_PARIS lower_PARIS lower_Paris)
  have n: "'' PARIS '' \<noteq> []" by simp
  have "eval_quiz_score [?q] 0 (Some '' PARIS '' # []) 0 = eval_quiz_score [?q] (Suc 0) [] (0 + 1)"
    using matching_submission_scores [OF p g n e, of "[]" 0] by (rule conjunct2)
  then have s: "eval_quiz_score [?q] 0 [Some '' PARIS ''] 0 = Inr 1"
    by (simp only: eval_quiz_score.simps(1)) simp
  have e': "lower (strip '' PARIS '') = lower ''Paris''"
    by (simp only: strip_PARIS lower_PARIS lower_Paris)
  from p a e' s show ?thesis by (intro conjI)
qed

text \<open>
  C3 as stated fails for the empty submission. The line \<open>Q,\<close> of a text-answer quiz is
  parsed into a record whose correct answer is the empty string. The empty submission equals
  that answer and has the same digest, but \<open>eval_quiz\<close> tests \<open>ans\<close> for truth before
  it compares digests, so the submission is not counted.
\<close>

theorem empty_submission_not_scored:
  "parse_line ''Text Answer'' ''Q,'' [] =
     Inr [[(''question'', Str ''Q''), (''answer_hash'', Str (sha256_hexdigest (encode [])))]] \<and>
   answer_field ''Text Answer'' ''Q,'' = [] \<and>
   lower (strip []) = lower [] \<and>
   sha256_hexdigest (encode (strip (lower []))) = sha256_hexdigest (encode (lower [])) \<and>
   eval_quiz_score
     [[(''question'', Str ''Q''), (''answer_hash'', Str (sha256_hexdigest (encode [])))]]
     0 [Some []] 0 = Inr 0"
proof -
  have "parse_line ''Text Answer'' ''Q,'' [] =
     Inr [[(''question'', Str ''Q''), (''answer_hash'', Str (sha256_hexdigest (encode [])))]]"
    using text_line_fields [of "''Text Answer''" "''Q,''" "[]"]
    by (simp add: strip_def lstrip_def rstrip_def isspace_def lower_def)
  moreover have "answer_field ''Text Answer'' ''Q,'' = []"
    by (simp add: answer_field_def strip_def lstrip_def rstrip_def isspace_def)
  moreover have "strip [] = []" "lower [] = []"
    by (simp_all add: strip_def lstrip_def rstrip_def lower_def)
  ultimately show ?thesis by simp
qed

end
